theory Spec2Isabelle
  imports Main "HOL-Library.Word"
begin

section \<open>Strings and numbers of the host language\<close>

text \<open>
  A JavaScript string is a sequence of 16-bit code units; \<open>length\<close> is the string's
  \<open>.length\<close>.  \<open>u\<close> turns an ASCII literal of the source into such a string.
\<close>

type_synonym jschar = "16 word"
type_synonym jsstring = "jschar list"
type_synonym bytes = "8 word list"

definition u :: "string \<Rightarrow> jsstring" where
  "u s = map of_char s"

text \<open>
  Numbers.  \<open>Dec neg m e\<close> is the finite number \<open>(-1)^neg * m * 10^e\<close>; in canonical form
  \<open>m\<close> has no trailing decimal zero, and zero is \<open>Dec neg 0 0\<close> (so \<open>Dec True 0 0\<close> is
  \<open>-0\<close>).  A finite IEEE double is identified with the shortest decimal that denotes it,
  which is the decimal the language's own number-to-string conversion prints.  The
  rounding of decimal literals that are not the shortest form of a double is not part
  of this model: every decimal is kept exactly.
\<close>

datatype number = NaN | Inf bool | Dec bool nat int

fun wf_number :: "number \<Rightarrow> bool" where
  "wf_number (Dec neg m e) = (if m = 0 then e = 0 else m mod 10 \<noteq> 0)"
| "wf_number _ = True"

function strip10 :: "nat \<Rightarrow> int \<Rightarrow> nat \<times> int" where
  "strip10 m e =
     (if m = 0 then (0, 0)
      else if m mod 10 = 0 then strip10 (m div 10) (e + 1)
      else (m, e))"
  by pat_completeness auto
termination
  by (relation "measure (\<lambda>(m, e). m)") auto

definition mk_dec :: "bool \<Rightarrow> nat \<Rightarrow> int \<Rightarrow> number" where
  "mk_dec neg m e = (case strip10 m e of (m', e') \<Rightarrow> Dec neg m' e')"

definition number_of_nat :: "nat \<Rightarrow> number" where
  "number_of_nat n = mk_dec False n 0"

definition number_of_int :: "int \<Rightarrow> number" where
  "number_of_int i = mk_dec (i < 0) (nat \<bar>i\<bar>) 0"

text \<open>Decimal digits, most significant first.\<close>

function digits_of_nat :: "nat \<Rightarrow> nat list" where
  "digits_of_nat n = (if n < 10 then [n] else digits_of_nat (n div 10) @ [n mod 10])"
  by pat_completeness auto
termination
  by (relation "measure id") auto

definition digit_char :: "nat \<Rightarrow> jschar" where
  "digit_char d = of_nat (48 + d)"

definition show_nat :: "nat \<Rightarrow> jsstring" where
  "show_nat n = map digit_char (digits_of_nat n)"

section \<open>Values\<close>

text \<open>
  The values the library can be handed.  An object carries its own enumerable string-keyed
  properties, in property order, and the prototype it was created with; the built-in
  kinds the code tests with \<open>instanceof\<close> are constructors of their own.
  \<^item> \<open>DateV t\<close>: a Date with time value \<open>t\<close> in milliseconds, \<open>None\<close> for an invalid Date.
  \<^item> \<open>RegExpV source flags\<close>.
  \<^item> \<open>BlobV bytes type\<close>, \<open>FileV bytes name type lastModified\<close>.
  \<^item> \<open>ArrayBufferV bytes\<close>.
  \<^item> \<open>ViewV name buffer byteOffset byteLength elements\<close>: a typed array or DataView
    named \<open>name\<close> over \<open>buffer\<close>; \<open>elements\<close> are its indexed elements as numbers
    (none for a DataView).
  Values are finite trees: cyclic structures, accessor properties, proxies and own
  properties that shadow \<open>constructor\<close> are outside the model, and so is \<open>bigint\<close>.
\<close>

datatype proto = ObjectPrototype | NullPrototype | ClassPrototype jsstring

datatype jsvalue =
    Undefined
  | Null
  | Bool bool
  | Num number
  | Str jsstring
  | Symbol
  | Function
  | Arr "jsvalue list"
  | Obj proto "(jsstring \<times> jsvalue) list"
  | DateV "int option"
  | RegExpV jsstring jsstring
  | BlobV bytes jsstring
  | FileV bytes jsstring jsstring int
  | ArrayBufferV bytes
  | ViewV jsstring bytes nat nat "number list"

fun typeof :: "jsvalue \<Rightarrow> jsstring" where
  "typeof Undefined = u ''undefined''"
| "typeof (Bool _) = u ''boolean''"
| "typeof (Num _) = u ''number''"
| "typeof (Str _) = u ''string''"
| "typeof Symbol = u ''symbol''"
| "typeof Function = u ''function''"
| "typeof _ = u ''object''"

section \<open>Errors (errors.ts)\<close>

datatype StorageErrorCode =
    STORAGE_UNAVAILABLE
  | QUOTA_EXCEEDED
  | INVALID_VALUE
  | OPERATION_FAILED
  | TIMEOUT
  | CORRUPTION
  | VERSION_MISMATCH

text \<open>A native \<open>Error\<close>: its \<open>name\<close> and its \<open>message\<close>.\<close>

record native_error =
  error_name :: jsstring
  error_message :: jsstring

text \<open>
  \<open>StorageError\<close>.  \<open>ctxt\<close> is the source's \<open>context\<close> field; an absent optional field
  is \<open>None\<close>.
\<close>

record storage_error =
  code :: StorageErrorCode
  message :: jsstring
  ctxt :: "(jsstring \<times> jsvalue) list option"
  originalError :: "native_error option"

definition new_StorageError ::
  "StorageErrorCode \<Rightarrow> jsstring \<Rightarrow> (jsstring \<times> jsvalue) list option \<Rightarrow> native_error option
     \<Rightarrow> storage_error" where
  "new_StorageError c m cx orig = \<lparr>code = c, message = m, ctxt = cx, originalError = orig\<rparr>"

definition fromNativeError ::
  "native_error \<Rightarrow> (jsstring \<times> jsvalue) list option \<Rightarrow> storage_error" where
  "fromNativeError error cx =
     (let errorName = error_name error in
      if errorName = u ''QuotaExceededError'' then
        new_StorageError QUOTA_EXCEEDED
          (u ''Storage quota exceeded. Consider clearing old data or using a smaller payload'')
          cx (Some error)
      else if errorName = u ''TimeoutError'' then
        new_StorageError TIMEOUT (u ''Storage operation timed out after 5 seconds'')
          cx (Some error)
      else if errorName = u ''VersionError'' then
        new_StorageError VERSION_MISMATCH
          (u ''Database version conflict. Close other tabs or refresh the page'')
          cx (Some error)
      else if errorName = u ''InvalidStateError'' \<or> errorName = u ''UnknownError''
              \<or> errorName = u ''NotFoundError'' then
        new_StorageError OPERATION_FAILED
          (u ''Storage operation failed: '' @ error_message error) cx (Some error)
      else
        new_StorageError OPERATION_FAILED
          (u ''Storage operation failed: '' @ error_message error) cx (Some error))"

definition invalidValue :: "jsstring \<Rightarrow> storage_error" where
  "invalidValue type =
     new_StorageError INVALID_VALUE
       (u ''Cannot store value of type '' @ [0x22] @ type @ [0x22]
          @ u ''. Supported types: primitives, objects, arrays, Date, RegExp, Blob, File, ArrayBuffer, TypedArrays'')
       None None"

definition invalidKey :: "jsstring \<Rightarrow> storage_error" where
  "invalidKey reason = new_StorageError INVALID_VALUE (u ''Invalid key: '' @ reason) None None"

section \<open>Key validation (validation.ts)\<close>

text \<open>
  The length in the "too long" message is printed by the number-to-string conversion,
  which for a non-negative integer below \<open>10^21\<close> is its decimal digits.
\<close>

definition validateKey :: "jsvalue \<Rightarrow> storage_error + unit" where
  "validateKey key =
     (case key of
        Str k \<Rightarrow>
          if length k = 0 then Inl (invalidKey (u ''Key cannot be empty''))
          else if length k > 1000 then
            Inl (invalidKey (u ''Key too long ('' @ show_nat (length k)
                  @ u '' characters). Maximum is 1000 characters''))
          else Inr ()
      | _ \<Rightarrow> Inl (invalidKey (u ''Key must be a string, got '' @ typeof key)))"

section \<open>The classifier (validation.ts)\<close>

fun isPlainObject :: "jsvalue \<Rightarrow> bool" where
  "isPlainObject (Obj p props) = (p = ObjectPrototype \<or> p = NullPrototype)"
| "isPlainObject _ = False"

fun isSerializable :: "jsvalue \<Rightarrow> bool" where
  "isSerializable Null = True"
| "isSerializable Undefined = True"
| "isSerializable (Str _) = True"
| "isSerializable (Num _) = True"
| "isSerializable (Bool _) = True"
| "isSerializable (DateV _) = True"
| "isSerializable (RegExpV _ _) = True"
| "isSerializable (BlobV _ _) = True"
| "isSerializable (FileV _ _ _ _) = True"
| "isSerializable (ArrayBufferV _) = True"
| "isSerializable (ViewV _ _ _ _ _) = True"
| "isSerializable (Arr items) = list_all isSerializable items"
| "isSerializable (Obj p props) =
     (if isPlainObject (Obj p props) then list_all (\<lambda>kv. isSerializable (snd kv)) props
      else False)"
| "isSerializable Symbol = False"
| "isSerializable Function = False"

text \<open>
  \<open>getTypeName\<close>.  An object's \<open>constructor\<close> is the one of its prototype: \<open>Object\<close> for
  \<open>Object.prototype\<close>, none for a null prototype, the class for a class instance (whose
  name may be empty).
\<close>

fun getTypeName :: "jsvalue \<Rightarrow> jsstring" where
  "getTypeName Null = u ''null''"
| "getTypeName Undefined = u ''undefined''"
| "getTypeName (Arr _) = u ''Array''"
| "getTypeName (DateV _) = u ''Date''"
| "getTypeName (RegExpV _ _) = u ''RegExp''"
| "getTypeName (FileV _ _ _ _) = u ''File''"
| "getTypeName (BlobV _ _) = u ''Blob''"
| "getTypeName (ArrayBufferV _) = u ''ArrayBuffer''"
| "getTypeName (ViewV name _ _ _ _) = name"
| "getTypeName (Obj ObjectPrototype _) = u ''Object''"
| "getTypeName (Obj NullPrototype _) = u ''Object''"
| "getTypeName (Obj (ClassPrototype name) _) = (if name = [] then u ''Object'' else name)"
| "getTypeName v = typeof v"

section \<open>Exceptions\<close>

text \<open>
  What a call can throw: a \<open>StorageError\<close>, or one of the host's own errors.
\<close>

datatype exn =
    StorageErr storage_error
  | TypeError
  | RangeError
  | SyntaxError
  | InvalidCharacterError
  | PlainError jsstring

section \<open>Number to string\<close>

definition ch :: "char \<Rightarrow> jschar" where
  "ch c = of_char c"

text \<open>
  The host's conversion of a number to a string (radix 10).  With \<open>k\<close> the number of
  digits of the canonical mantissa and \<open>n = e + k\<close> the position of the decimal point, the
  five layouts are those of the language definition.
\<close>

definition dec_string :: "nat \<Rightarrow> int \<Rightarrow> jsstring" where
  "dec_string m e =
     (let ds = show_nat m; k = int (length ds); n = e + k in
      if k \<le> n \<and> n \<le> 21 then ds @ replicate (nat (n - k)) (ch CHR ''0'')
      else if 0 < n \<and> n \<le> 21 then take (nat n) ds @ u ''.'' @ drop (nat n) ds
      else if - 6 < n \<and> n \<le> 0 then u ''0.'' @ replicate (nat (- n)) (ch CHR ''0'') @ ds
      else
        (let ex = (if n - 1 < 0 then u ''-'' else u ''+'') @ show_nat (nat \<bar>n - 1\<bar>) in
         if k = 1 then ds @ u ''e'' @ ex
         else take 1 ds @ u ''.'' @ drop 1 ds @ u ''e'' @ ex))"

fun Number_toString :: "number \<Rightarrow> jsstring" where
  "Number_toString NaN = u ''NaN''"
| "Number_toString (Inf neg) = (if neg then u ''-Infinity'' else u ''Infinity'')"
| "Number_toString (Dec neg m e) =
     (case strip10 m e of
        (m', e') \<Rightarrow>
          if m' = 0 then u ''0''
          else (if neg then u ''-'' else []) @ dec_string m' e')"

fun is_finite :: "number \<Rightarrow> bool" where
  "is_finite (Dec _ _ _) = True"
| "is_finite _ = False"

section \<open>JSON text\<close>

datatype json =
    JNull
  | JBool bool
  | JNum number
  | JStr jsstring
  | JArr "json list"
  | JObj "(jsstring \<times> json) list"

datatype token =
    TLBrace | TRBrace | TLBrack | TRBrack | TColon | TComma
  | TStr jsstring | TNum number | TTrue | TFalse | TNull

subsection \<open>Printing\<close>

definition is_high_surrogate :: "jschar \<Rightarrow> bool" where
  "is_high_surrogate c = (0xD800 \<le> c \<and> c \<le> 0xDBFF)"

definition is_low_surrogate :: "jschar \<Rightarrow> bool" where
  "is_low_surrogate c = (0xDC00 \<le> c \<and> c \<le> 0xDFFF)"

definition hex_char :: "nat \<Rightarrow> jschar" where
  "hex_char d = (if d < 10 then of_nat (48 + d) else of_nat (87 + d))"

definition unicode_escape :: "jschar \<Rightarrow> jsstring" where
  "unicode_escape c =
     (let n = unat c in
      [0x5C, ch CHR ''u''] @ [hex_char (n div 4096), hex_char (n div 256 mod 16),
                  hex_char (n div 16 mod 16), hex_char (n mod 16)])"

text \<open>
  One code unit that is not half of a surrogate pair, inside a quoted string
  (\<open>0x5C\<close> is the backslash, \<open>0x22\<close> the double quote).
\<close>

definition quote_unit :: "jschar \<Rightarrow> jsstring" where
  "quote_unit c =
     (if c = 0x08 then [0x5C, ch CHR ''b'']
      else if c = 0x09 then [0x5C, ch CHR ''t'']
      else if c = 0x0A then [0x5C, ch CHR ''n'']
      else if c = 0x0C then [0x5C, ch CHR ''f'']
      else if c = 0x0D then [0x5C, ch CHR ''r'']
      else if c = 0x22 then [0x5C, 0x22]
      else if c = 0x5C then [0x5C, 0x5C]
      else if c < 0x20 \<or> is_high_surrogate c \<or> is_low_surrogate c then unicode_escape c
      else [c])"

text \<open>
  The body of a quoted string: a high surrogate followed by a low one is a code point
  of its own and is copied; every other code unit goes through \<open>quote_unit\<close>.
\<close>

fun quote_body :: "jsstring \<Rightarrow> jsstring" where
  "quote_body [] = []"
| "quote_body [c] = quote_unit c"
| "quote_body (c # d # cs) =
     (if is_high_surrogate c \<and> is_low_surrogate d then c # d # quote_body cs
      else quote_unit c @ quote_body (d # cs))"

definition QuoteJSONString :: "jsstring \<Rightarrow> jsstring" where
  "QuoteJSONString s = [0x22] @ quote_body s @ [0x22]"

fun print_token :: "token \<Rightarrow> jsstring" where
  "print_token TLBrace = u ''{''"
| "print_token TRBrace = u ''}''"
| "print_token TLBrack = u ''[''"
| "print_token TRBrack = u '']''"
| "print_token TColon = u '':''"
| "print_token TComma = u '',''"
| "print_token (TStr s) = QuoteJSONString s"
| "print_token (TNum n) = Number_toString n"
| "print_token TTrue = u ''true''"
| "print_token TFalse = u ''false''"
| "print_token TNull = u ''null''"

fun tokens :: "json \<Rightarrow> token list"
  and tokens_elems :: "json list \<Rightarrow> token list"
  and tokens_members :: "(jsstring \<times> json) list \<Rightarrow> token list" where
  "tokens JNull = [TNull]"
| "tokens (JBool b) = [if b then TTrue else TFalse]"
| "tokens (JNum n) = [TNum n]"
| "tokens (JStr s) = [TStr s]"
| "tokens (JArr xs) = TLBrack # tokens_elems xs @ [TRBrack]"
| "tokens (JObj ms) = TLBrace # tokens_members ms @ [TRBrace]"
| "tokens_elems [] = []"
| "tokens_elems [x] = tokens x"
| "tokens_elems (x # y # ys) = tokens x @ TComma # tokens_elems (y # ys)"
| "tokens_members [] = []"
| "tokens_members [(k, x)] = TStr k # TColon # tokens x"
| "tokens_members ((k, x) # m # ms) = TStr k # TColon # tokens x @ TComma # tokens_members (m # ms)"

text \<open>The text of a JSON value, without white space, as the host's serializer writes it.\<close>

definition print_json :: "json \<Rightarrow> jsstring" where
  "print_json j = concat (map print_token (tokens j))"

section \<open>Base64 (the host's \<open>btoa\<close> and \<open>atob\<close>)\<close>

definition b64_char :: "nat \<Rightarrow> jschar" where
  "b64_char n =
     (if n < 26 then of_nat (65 + n)
      else if n < 52 then of_nat (97 + (n - 26))
      else if n < 62 then of_nat (48 + (n - 52))
      else if n = 62 then ch CHR ''+''
      else ch CHR ''/'')"

definition b64_index :: "jschar \<Rightarrow> nat option" where
  "b64_index c =
     (let n = unat c in
      if 65 \<le> n \<and> n \<le> 90 then Some (n - 65)
      else if 97 \<le> n \<and> n \<le> 122 then Some (n - 97 + 26)
      else if 48 \<le> n \<and> n \<le> 57 then Some (n - 48 + 52)
      else if c = ch CHR ''+'' then Some 62
      else if c = ch CHR ''/'' then Some 63
      else None)"

text \<open>Three bytes become four symbols; one or two trailing bytes are padded with \<open>=\<close>.\<close>

fun b64_encode :: "nat list \<Rightarrow> jsstring" where
  "b64_encode [] = []"
| "b64_encode [a] = [b64_char (a div 4), b64_char (a mod 4 * 16), ch CHR ''='', ch CHR ''='']"
| "b64_encode [a, b] =
     [b64_char (a div 4), b64_char (a mod 4 * 16 + b div 16), b64_char (b mod 16 * 4),
      ch CHR ''='']"
| "b64_encode (a # b # c # rest) =
     [b64_char (a div 4), b64_char (a mod 4 * 16 + b div 16),
      b64_char (b mod 16 * 4 + c div 64), b64_char (c mod 64)] @ b64_encode rest"

text \<open>
  \<open>btoa\<close> takes a string whose code units are byte values and fails on any other.
\<close>

definition btoa :: "jsstring \<Rightarrow> exn + jsstring" where
  "btoa s =
     (if list_all (\<lambda>c. c \<le> 0xFF) s then Inr (b64_encode (map unat s))
      else Inl InvalidCharacterError)"

text \<open>
  Four symbols become three bytes; of two or three trailing symbols the surplus bits
  are dropped.
\<close>

fun b64_decode :: "nat list \<Rightarrow> nat list" where
  "b64_decode (p # q # r # s # rest) =
     [p * 4 + q div 16, q mod 16 * 16 + r div 4, r mod 4 * 64 + s] @ b64_decode rest"
| "b64_decode [p, q, r] = [p * 4 + q div 16, q mod 16 * 16 + r div 4]"
| "b64_decode [p, q] = [p * 4 + q div 16]"
| "b64_decode _ = []"

definition is_ascii_whitespace :: "jschar \<Rightarrow> bool" where
  "is_ascii_whitespace c = (c = 0x09 \<or> c = 0x0A \<or> c = 0x0C \<or> c = 0x0D \<or> c = 0x20)"

definition strip_padding :: "jsstring \<Rightarrow> jsstring" where
  "strip_padding s =
     (if length s mod 4 = 0 then
        (case rev s of
           a # b # r \<Rightarrow>
             if a = ch CHR ''='' \<and> b = ch CHR ''='' then rev r
             else if a = ch CHR ''='' then rev (b # r)
             else s
         | _ \<Rightarrow> s)
      else s)"

text \<open>
  \<open>atob\<close>, the forgiving decoder: white space is removed, then one or two padding
  characters of a text whose length is a multiple of four; a length of 1 modulo 4 and
  a character outside the alphabet are errors.
\<close>

definition atob :: "jsstring \<Rightarrow> exn + jsstring" where
  "atob s =
     (let d = strip_padding (filter (\<lambda>c. \<not> is_ascii_whitespace c) s) in
      if length d mod 4 = 1 then Inl InvalidCharacterError
      else if list_all (\<lambda>c. b64_index c \<noteq> None) d then
        Inr (map of_nat (b64_decode (map (\<lambda>c. case b64_index c of Some n \<Rightarrow> n | None \<Rightarrow> 0) d)))
      else Inl InvalidCharacterError)"

section \<open>The serializer's conversion utilities (core/serializer.ts)\<close>

text \<open>
  \<open>arrayBufferToBase64\<close>: the loop appends \<open>String.fromCharCode(bytes[i])\<close> for every
  byte, then \<open>btoa\<close> encodes the binary string.
\<close>

definition arrayBufferToBase64 :: "bytes \<Rightarrow> exn + jsstring" where
  "arrayBufferToBase64 buffer = btoa (map ucast buffer)"

text \<open>
  \<open>base64ToArrayBuffer\<close>: \<open>atob\<close>, then the loop stores \<open>charCodeAt(i)\<close> into a byte
  array (a store into a \<open>Uint8Array\<close> keeps the low eight bits).
\<close>

definition base64ToArrayBuffer :: "jsstring \<Rightarrow> exn + bytes" where
  "base64ToArrayBuffer base64 =
     (case atob base64 of
        Inl e \<Rightarrow> Inl e
      | Inr binaryString \<Rightarrow> Inr (map ucast binaryString))"

text \<open>\<open>s.split(c)\<close>: the pieces of \<open>s\<close> between the occurrences of \<open>c\<close>.\<close>

fun split_on :: "jschar \<Rightarrow> jsstring \<Rightarrow> jsstring list" where
  "split_on c [] = [[]]"
| "split_on c (x # xs) =
     (if x = c then [] # split_on c xs
      else (case split_on c xs of p # ps \<Rightarrow> (x # p) # ps | [] \<Rightarrow> [[x]]))"

text \<open>
  \<open>FileReader.readAsDataURL\<close> of an in-memory blob: the media type (browsers write
  \<open>application/octet-stream\<close> for a blob without one), \<open>;base64,\<close> and the
  base64 text of the bytes.  Reading an in-memory blob does not fail.
\<close>

definition readAsDataURL :: "bytes \<Rightarrow> jsstring \<Rightarrow> jsstring" where
  "readAsDataURL content type =
     u ''data:'' @ (if type = [] then u ''application/octet-stream'' else type)
       @ u '';base64,'' @ b64_encode (map unat content)"

text \<open>
  \<open>blobToBase64\<close>: the second comma-separated piece of the data URL; the promise is
  rejected with a plain \<open>Error\<close> when that piece is missing or empty.
\<close>

definition blobToBase64 :: "bytes \<Rightarrow> jsstring \<Rightarrow> exn + jsstring" where
  "blobToBase64 content type =
     (let result = readAsDataURL content type; pieces = split_on (ch CHR '','') result in
      if length pieces \<le> 1 \<or> pieces ! 1 = [] then
        Inl (PlainError (u ''Failed to convert Blob to base64''))
      else Inr (pieces ! 1))"

section \<open>Dates (the host's \<open>toISOString\<close>)\<close>

text \<open>
  A time value is a number of milliseconds since the epoch, at most \<open>8.64 * 10^15\<close> in
  absolute value.  Days, years, months and dates are computed as the language
  definition does, in UTC.
\<close>

definition valid_time :: "int \<Rightarrow> bool" where
  "valid_time t = (\<bar>t\<bar> \<le> 8640000000000000)"

definition Day :: "int \<Rightarrow> int" where
  "Day t = t div 86400000"

definition TimeWithinDay :: "int \<Rightarrow> int" where
  "TimeWithinDay t = t mod 86400000"

definition DayFromYear :: "int \<Rightarrow> int" where
  "DayFromYear y =
     365 * (y - 1970) + (y - 1969) div 4 - (y - 1901) div 100 + (y - 1601) div 400"

definition InLeapYear :: "int \<Rightarrow> bool" where
  "InLeapYear y = ((y mod 4 = 0 \<and> y mod 100 \<noteq> 0) \<or> y mod 400 = 0)"

text \<open>The year of a day: the largest \<open>y\<close> with \<open>DayFromYear y \<le> d\<close>, found by counting up.\<close>

function year_search :: "int \<Rightarrow> int \<Rightarrow> int" where
  "year_search d y = (if DayFromYear (y + 1) \<le> d then year_search d (y + 1) else y)"
  by pat_completeness auto
termination
proof (relation "measure (\<lambda>(d, y). nat (d - DayFromYear y))")
  show "wf (measure (\<lambda>(d, y). nat (d - DayFromYear y)))" by simp
next
  fix d y :: int
  assume le: "DayFromYear (y + 1) \<le> d"
  have a: "(y - 1969) div 4 \<le> (y + 1 - 1969) div 4"
    by (rule zdiv_mono1) simp_all
  have "(y + 1 - 1901) div 100 \<le> (y - 1901 + 100) div 100"
    by (rule zdiv_mono1) simp_all
  then have b: "(y + 1 - 1901) div 100 \<le> (y - 1901) div 100 + 1"
    by simp
  have c: "(y - 1601) div 400 \<le> (y + 1 - 1601) div 400"
    by (rule zdiv_mono1) simp_all
  have arith: "365 * (y - 1970) + p - q + r < 365 * (y + 1 - 1970) + p' - q' + r'"
    if "p \<le> p'" "q' \<le> q + 1" "r \<le> r'" for p p' q q' r r' :: int
    using that by simp
  have "DayFromYear y < DayFromYear (y + 1)"
    unfolding DayFromYear_def by (rule arith [OF a b c])
  with le show "((d, y + 1), (d, y)) \<in> measure (\<lambda>(d, y). nat (d - DayFromYear y))"
    by simp
qed

definition YearFromDay :: "int \<Rightarrow> int" where
  "YearFromDay d = year_search d (1970 + (if 0 \<le> d then d div 366 else d div 365))"

text \<open>The day of the year on which month \<open>m\<close> (0 to 11) starts; 12 is the year's end.\<close>

definition month_start :: "nat \<Rightarrow> bool \<Rightarrow> int" where
  "month_start m leap =
     (let l = (if leap then 1 else 0) in
      if m = 0 then 0 else if m = 1 then 31 else if m = 2 then 59 + l
      else if m = 3 then 90 + l else if m = 4 then 120 + l else if m = 5 then 151 + l
      else if m = 6 then 181 + l else if m = 7 then 212 + l else if m = 8 then 243 + l
      else if m = 9 then 273 + l else if m = 10 then 304 + l else if m = 11 then 334 + l
      else 365 + l)"

definition MonthFromDay :: "int \<Rightarrow> bool \<Rightarrow> nat" where
  "MonthFromDay dw leap =
     (if dw < month_start 1 leap then 0 else if dw < month_start 2 leap then 1
      else if dw < month_start 3 leap then 2 else if dw < month_start 4 leap then 3
      else if dw < month_start 5 leap then 4 else if dw < month_start 6 leap then 5
      else if dw < month_start 7 leap then 6 else if dw < month_start 8 leap then 7
      else if dw < month_start 9 leap then 8 else if dw < month_start 10 leap then 9
      else if dw < month_start 11 leap then 10 else 11)"

definition pad :: "nat \<Rightarrow> nat \<Rightarrow> jsstring" where
  "pad w n = (let ds = show_nat n in replicate (w - length ds) (ch CHR ''0'') @ ds)"

definition year_string :: "int \<Rightarrow> jsstring" where
  "year_string y =
     (if 0 \<le> y \<and> y \<le> 9999 then pad 4 (nat y)
      else (if y < 0 then u ''-'' else u ''+'') @ pad 6 (nat \<bar>y\<bar>))"

definition toISOString :: "int \<Rightarrow> jsstring" where
  "toISOString t =
     (let d = Day t; y = YearFromDay d; dw = d - DayFromYear y; leap = InLeapYear y;
          m = MonthFromDay dw leap; dt = dw - month_start m leap + 1;
          tw = TimeWithinDay t
      in year_string y @ u ''-'' @ pad 2 (m + 1) @ u ''-'' @ pad 2 (nat dt)
           @ u ''T'' @ pad 2 (nat (tw div 3600000)) @ u '':''
           @ pad 2 (nat (tw div 60000 mod 60)) @ u '':''
           @ pad 2 (nat (tw div 1000 mod 60)) @ u ''.''
           @ pad 3 (nat (tw mod 1000)) @ u ''Z'')"

section \<open>The host's JSON serializer\<close>

text \<open>
  What \<open>JSON.stringify\<close> makes of a value inside an object or array; \<open>None\<close> is
  \<open>undefined\<close> (the property is left out; in an array it becomes \<open>null\<close>).  A number that
  is not finite becomes \<open>null\<close>; a Date is replaced by its \<open>toJSON\<close> (its ISO string, or
  \<open>null\<close> when invalid); a typed array is an object of its indexed elements; the other
  built-in kinds have no own enumerable properties.
\<close>

fun index_members :: "nat \<Rightarrow> number list \<Rightarrow> (jsstring \<times> json) list" where
  "index_members i [] = []"
| "index_members i (x # xs) =
     (show_nat i, if is_finite x then JNum x else JNull) # index_members (Suc i) xs"

fun to_json :: "jsvalue \<Rightarrow> json option"
  and to_json_elems :: "jsvalue list \<Rightarrow> json list"
  and to_json_members :: "(jsstring \<times> jsvalue) list \<Rightarrow> (jsstring \<times> json) list" where
  "to_json Undefined = None"
| "to_json Symbol = None"
| "to_json Function = None"
| "to_json Null = Some JNull"
| "to_json (Bool b) = Some (JBool b)"
| "to_json (Num n) = Some (if is_finite n then JNum n else JNull)"
| "to_json (Str s) = Some (JStr s)"
| "to_json (Arr items) = Some (JArr (to_json_elems items))"
| "to_json (Obj p props) = Some (JObj (to_json_members props))"
| "to_json (DateV None) = Some JNull"
| "to_json (DateV (Some t)) = Some (JStr (toISOString t))"
| "to_json (RegExpV _ _) = Some (JObj [])"
| "to_json (BlobV _ _) = Some (JObj [])"
| "to_json (FileV _ _ _ _) = Some (JObj [])"
| "to_json (ArrayBufferV _) = Some (JObj [])"
| "to_json (ViewV _ _ _ _ elems) = Some (JObj (index_members 0 elems))"
| "to_json_elems [] = []"
| "to_json_elems (x # xs) =
     (case to_json x of None \<Rightarrow> JNull | Some j \<Rightarrow> j) # to_json_elems xs"
| "to_json_members [] = []"
| "to_json_members ((k, x) # kvs) =
     (case to_json x of None \<Rightarrow> to_json_members kvs | Some j \<Rightarrow> (k, j) # to_json_members kvs)"

text \<open>\<open>JSON.stringify\<close> of an object with the given properties: always a string.\<close>

definition JSON_stringify_object :: "(jsstring \<times> jsvalue) list \<Rightarrow> jsstring" where
  "JSON_stringify_object props = print_json (JObj (to_json_members props))"

section \<open>Serializer: encoding (core/serializer.ts)\<close>

datatype ValueType =
    T_string | T_number | T_boolean | T_null | T_undefined | T_object | T_array
  | T_date | T_regexp | T_blob | T_file | T_arraybuffer

fun tag_name :: "ValueType \<Rightarrow> jsstring" where
  "tag_name T_string = u ''string''"
| "tag_name T_number = u ''number''"
| "tag_name T_boolean = u ''boolean''"
| "tag_name T_null = u ''null''"
| "tag_name T_undefined = u ''undefined''"
| "tag_name T_object = u ''object''"
| "tag_name T_array = u ''array''"
| "tag_name T_date = u ''date''"
| "tag_name T_regexp = u ''regexp''"
| "tag_name T_blob = u ''blob''"
| "tag_name T_file = u ''file''"
| "tag_name T_arraybuffer = u ''arraybuffer''"

text \<open>
  \<open>SerializedValue\<close>: the fields \<open>__v\<close>, \<open>__t\<close>, \<open>data\<close> and the optional \<open>meta\<close>.
\<close>

record envelope =
  env_v :: number
  env_t :: ValueType
  env_data :: jsvalue
  env_meta :: "(jsstring \<times> jsvalue) list option"

definition one :: number where
  "one = Dec False 1 0"

text \<open>The properties of the envelope object literal, in the order they are written.\<close>

definition envelope_props :: "envelope \<Rightarrow> (jsstring \<times> jsvalue) list" where
  "envelope_props env =
     [(u ''__v'', Num (env_v env)), (u ''__t'', Str (tag_name (env_t env))),
      (u ''data'', env_data env)]
     @ (case env_meta env of
          None \<Rightarrow> []
        | Some m \<Rightarrow> [(u ''meta'', Obj ObjectPrototype m)])"

definition serializeBlob :: "bytes \<Rightarrow> jsstring \<Rightarrow> exn + envelope" where
  "serializeBlob content type =
     (case blobToBase64 content type of
        Inl e \<Rightarrow> Inl e
      | Inr base64 \<Rightarrow>
          Inr \<lparr>env_v = one, env_t = T_blob, env_data = Str base64,
               env_meta = Some [(u ''type'', Str type),
                                (u ''size'', Num (number_of_nat (length content)))]\<rparr>)"

definition serializeFile :: "bytes \<Rightarrow> jsstring \<Rightarrow> jsstring \<Rightarrow> int \<Rightarrow> exn + envelope" where
  "serializeFile content name type lastModified =
     (case blobToBase64 content type of
        Inl e \<Rightarrow> Inl e
      | Inr base64 \<Rightarrow>
          Inr \<lparr>env_v = one, env_t = T_file, env_data = Str base64,
               env_meta = Some [(u ''name'', Str name), (u ''type'', Str type),
                                (u ''size'', Num (number_of_nat (length content))),
                                (u ''lastModified'', Num (number_of_int lastModified))]\<rparr>)"

definition serializeArrayBuffer :: "bytes \<Rightarrow> exn + envelope" where
  "serializeArrayBuffer buffer =
     (case arrayBufferToBase64 buffer of
        Inl e \<Rightarrow> Inl e
      | Inr base64 \<Rightarrow>
          Inr \<lparr>env_v = one, env_t = T_arraybuffer, env_data = Str base64,
               env_meta = Some [(u ''byteLength'', Num (number_of_nat (length buffer)))]\<rparr>)"

text \<open>
  \<open>ArrayBuffer.slice(begin, end)\<close> for non-negative indices: both are clamped to the
  length of the buffer.
\<close>

definition slice :: "bytes \<Rightarrow> nat \<Rightarrow> nat \<Rightarrow> bytes" where
  "slice buffer begin end' =
     (let first = min begin (length buffer); final = min end' (length buffer)
      in take (final - first) (drop first buffer))"

definition serializeTypedArray :: "bytes \<Rightarrow> nat \<Rightarrow> nat \<Rightarrow> exn + envelope" where
  "serializeTypedArray buffer byteOffset byteLength =
     serializeArrayBuffer (slice buffer byteOffset (byteOffset + byteLength))"

fun createEnvelope :: "jsvalue \<Rightarrow> exn + envelope" where
  "createEnvelope Null =
     Inr \<lparr>env_v = one, env_t = T_null, env_data = Null, env_meta = None\<rparr>"
| "createEnvelope Undefined =
     Inr \<lparr>env_v = one, env_t = T_undefined, env_data = Null, env_meta = None\<rparr>"
| "createEnvelope (Str s) =
     Inr \<lparr>env_v = one, env_t = T_string, env_data = Str s, env_meta = None\<rparr>"
| "createEnvelope (Num n) =
     Inr \<lparr>env_v = one, env_t = T_number, env_data = Num n, env_meta = None\<rparr>"
| "createEnvelope (Bool b) =
     Inr \<lparr>env_v = one, env_t = T_boolean, env_data = Bool b, env_meta = None\<rparr>"
| "createEnvelope (DateV None) = Inl RangeError"
| "createEnvelope (DateV (Some t)) =
     Inr \<lparr>env_v = one, env_t = T_date, env_data = Str (toISOString t), env_meta = None\<rparr>"
| "createEnvelope (RegExpV source flags) =
     Inr \<lparr>env_v = one, env_t = T_regexp, env_data = Str source,
          env_meta = Some [(u ''flags'', Str flags)]\<rparr>"
| "createEnvelope (FileV content name type lastModified) =
     serializeFile content name type lastModified"
| "createEnvelope (BlobV content type) = serializeBlob content type"
| "createEnvelope (ArrayBufferV buffer) = serializeArrayBuffer buffer"
| "createEnvelope (ViewV name buffer byteOffset byteLength elems) =
     serializeTypedArray buffer byteOffset byteLength"
| "createEnvelope (Arr items) =
     Inr \<lparr>env_v = one, env_t = T_array, env_data = Arr items, env_meta = None\<rparr>"
| "createEnvelope (Obj p props) =
     (if isPlainObject (Obj p props) then
        Inr \<lparr>env_v = one, env_t = T_object, env_data = Obj p props, env_meta = None\<rparr>
      else Inl (StorageErr (invalidValue (getTypeName (Obj p props)))))"
| "createEnvelope v = Inl (StorageErr (invalidValue (getTypeName v)))"

text \<open>
  \<open>serialize\<close>: the promise is rejected (\<open>Inl\<close>) or resolved with the envelope's text.
\<close>

definition serialize :: "jsvalue \<Rightarrow> exn + jsstring" where
  "serialize v =
     (if \<not> isSerializable v then Inl (StorageErr (invalidValue (getTypeName v)))
      else
        (case createEnvelope v of
           Inl e \<Rightarrow> Inl e
         | Inr envelope \<Rightarrow> Inr (JSON_stringify_object (envelope_props envelope))))"

section \<open>The host's JSON parser\<close>

subsection \<open>Tokens\<close>

definition is_digit :: "jschar \<Rightarrow> bool" where
  "is_digit c = (0x30 \<le> c \<and> c \<le> 0x39)"

definition digit_val :: "jschar \<Rightarrow> nat" where
  "digit_val c = unat c - 48"

definition nat_of_digits :: "jsstring \<Rightarrow> nat" where
  "nat_of_digits ds = foldl (\<lambda>a c. 10 * a + digit_val c) 0 ds"

definition hex_val :: "jschar \<Rightarrow> nat option" where
  "hex_val c =
     (let n = unat c in
      if 48 \<le> n \<and> n \<le> 57 then Some (n - 48)
      else if 97 \<le> n \<and> n \<le> 102 then Some (n - 87)
      else if 65 \<le> n \<and> n \<le> 70 then Some (n - 55)
      else None)"

text \<open>The character an escape letter stands for.\<close>

definition simple_escape :: "jschar \<Rightarrow> jschar option" where
  "simple_escape e =
     (if e = 0x22 then Some 0x22
      else if e = 0x5C then Some 0x5C
      else if e = ch CHR ''/'' then Some (ch CHR ''/'')
      else if e = ch CHR ''b'' then Some 0x08
      else if e = ch CHR ''f'' then Some 0x0C
      else if e = ch CHR ''n'' then Some 0x0A
      else if e = ch CHR ''r'' then Some 0x0D
      else if e = ch CHR ''t'' then Some 0x09
      else None)"

definition cons_result :: "jschar \<Rightarrow> (jsstring \<times> jsstring) option \<Rightarrow> (jsstring \<times> jsstring) option" where
  "cons_result c r = (case r of None \<Rightarrow> None | Some (s, rest) \<Rightarrow> Some (c # s, rest))"

text \<open>
  The rest of a string literal after its opening quote: the string it denotes and the
  text after the closing quote.  A control character must be escaped.
\<close>

fun lex_string :: "jsstring \<Rightarrow> (jsstring \<times> jsstring) option" where
  "lex_string [] = None"
| "lex_string (c # cs) =
     (if c = 0x22 then Some ([], cs)
      else if c = 0x5C then
        (case cs of
           [] \<Rightarrow> None
         | e # r \<Rightarrow>
             if e = ch CHR ''u'' then
               (case r of
                  h1 # h2 # h3 # h4 # r' \<Rightarrow>
                    (case (hex_val h1, hex_val h2, hex_val h3, hex_val h4) of
                       (Some a, Some b, Some c', Some d) \<Rightarrow>
                         cons_result (of_nat (a * 4096 + b * 256 + c' * 16 + d)) (lex_string r')
                     | _ \<Rightarrow> None)
                | _ \<Rightarrow> None)
             else
               (case simple_escape e of
                  None \<Rightarrow> None
                | Some x \<Rightarrow> cons_result x (lex_string r)))
      else if c < 0x20 then None
      else cons_result c (lex_string cs))"

text \<open>
  A number literal: an optional minus, an integer part without a leading zero, an
  optional fraction, an optional exponent.  The value is the exact decimal.
\<close>

definition lex_exponent :: "jsstring \<Rightarrow> (int \<times> jsstring) option" where
  "lex_exponent s =
     (case s of
        [] \<Rightarrow> Some (0, s)
      | c # r \<Rightarrow>
          if c = ch CHR ''e'' \<or> c = ch CHR ''E'' then
            (let (neg, r1) =
                   (case r of
                      [] \<Rightarrow> (False, r)
                    | x # r' \<Rightarrow>
                        if x = ch CHR ''-'' then (True, r')
                        else if x = ch CHR ''+'' then (False, r')
                        else (False, r));
                 ds = takeWhile is_digit r1
             in if ds = [] then None
                else Some ((if neg then - int (nat_of_digits ds) else int (nat_of_digits ds)),
                           dropWhile is_digit r1))
          else Some (0, s))"

definition lex_fraction :: "jsstring \<Rightarrow> (jsstring \<times> jsstring) option" where
  "lex_fraction s =
     (case s of
        [] \<Rightarrow> Some ([], s)
      | c # r \<Rightarrow>
          if c = ch CHR ''.'' then
            (let ds = takeWhile is_digit r
             in if ds = [] then None else Some (ds, dropWhile is_digit r))
          else Some ([], s))"

definition lex_number :: "jsstring \<Rightarrow> (number \<times> jsstring) option" where
  "lex_number s =
     (let (neg, s1) = (case s of [] \<Rightarrow> (False, s)
                       | c # r \<Rightarrow> if c = ch CHR ''-'' then (True, r) else (False, s));
          ip = takeWhile is_digit s1
      in if ip = [] \<or> (1 < length ip \<and> hd ip = ch CHR ''0'') then None
         else
           (case lex_fraction (dropWhile is_digit s1) of
              None \<Rightarrow> None
            | Some (fp, s3) \<Rightarrow>
                (case lex_exponent s3 of
                   None \<Rightarrow> None
                 | Some (ex, s4) \<Rightarrow>
                     Some (mk_dec neg (nat_of_digits (ip @ fp)) (ex - int (length fp)), s4))))"

definition is_json_whitespace :: "jschar \<Rightarrow> bool" where
  "is_json_whitespace c = (c = 0x20 \<or> c = 0x09 \<or> c = 0x0A \<or> c = 0x0D)"

definition cons_token :: "token \<Rightarrow> token list option \<Rightarrow> token list option" where
  "cons_token t r = map_option (Cons t) r"

lemma cons_result_length:
  "cons_result c r = Some (s, rest) \<Longrightarrow> \<exists>s'. r = Some (s', rest)"
  by (auto simp: cons_result_def split: option.splits)

lemma lex_string_length: "lex_string cs = Some (s, rest) \<Longrightarrow> length rest < length cs"
proof (induction cs arbitrary: s rule: length_induct)
  case (1 xs)
  then obtain c cs where xs: "xs = c # cs" by (cases xs) auto
  have IH: "length ys < length xs \<Longrightarrow> lex_string ys = Some (s', rest) \<Longrightarrow> length rest < length ys"
    for ys s' using "1.IH" by blast
  note p = "1.prems" [unfolded xs lex_string.simps]
  show ?case
  proof (cases "c = 0x22")
    case True
    with p xs show ?thesis by simp
  next
    case q: False
    show ?thesis
    proof (cases "c = 0x5C")
      case True
      then obtain e r where cs: "cs = e # r"
        using p q by (cases cs) auto
      show ?thesis
      proof (cases "e = ch CHR ''u''")
        case u: True
        then obtain h1 h2 h3 h4 r' where r: "r = h1 # h2 # h3 # h4 # r'"
          using p q True cs by (auto split: list.splits)
        then obtain s' where "lex_string r' = Some (s', rest)"
          using p q True cs u
          by (auto split: option.splits dest: cons_result_length)
        then have "length rest < length r'"
          using IH [of r' s'] xs cs r by simp
        then show ?thesis using xs cs r by simp
      next
        case nu: False
        then obtain s' where "lex_string r = Some (s', rest)"
          using p q True cs
          by (auto split: option.splits dest: cons_result_length)
        then have "length rest < length r"
          using IH [of r s'] xs cs by simp
        then show ?thesis using xs cs by simp
      qed
    next
      case b: False
      then obtain s' where "lex_string cs = Some (s', rest)"
        using p q by (auto split: if_splits dest: cons_result_length)
      then have "length rest < length cs"
        using IH [of cs s'] xs by simp
      then show ?thesis using xs by simp
    qed
  qed
qed

lemma lex_exponent_length: "lex_exponent s = Some (ex, rest) \<Longrightarrow> length rest \<le> length s"
  by (auto simp: lex_exponent_def Let_def length_dropWhile_le le_SucI
        split: list.splits if_splits)

lemma lex_fraction_length: "lex_fraction s = Some (fp, rest) \<Longrightarrow> length rest \<le> length s"
  by (auto simp: lex_fraction_def Let_def length_dropWhile_le le_SucI
        split: list.splits if_splits)

lemma lex_number_length:
  assumes "lex_number (c # cs) = Some (n, rest)"
  shows "length rest < Suc (length cs)"
proof -
  define s1 where "s1 = (if c = ch CHR ''-'' then cs else c # cs)"
  have s1: "length s1 \<le> Suc (length cs)" by (simp add: s1_def)
  from assms have "\<exists>fp s3 ex. takeWhile is_digit s1 \<noteq> []
      \<and> lex_fraction (dropWhile is_digit s1) = Some (fp, s3) \<and> lex_exponent s3 = Some (ex, rest)"
    by (cases "c = ch CHR ''-''")
       (auto simp: lex_number_def s1_def Let_def split: if_splits option.splits
          simp del: takeWhile.simps dropWhile.simps)
  then obtain fp s3 ex where ne: "takeWhile is_digit s1 \<noteq> []"
    and fr: "lex_fraction (dropWhile is_digit s1) = Some (fp, s3)"
    and ex: "lex_exponent s3 = Some (ex, rest)"
    by blast
  have "length (takeWhile is_digit s1) + length (dropWhile is_digit s1) = length s1"
    by (metis length_append takeWhile_dropWhile_id)
  with ne have lt: "length (dropWhile is_digit s1) < length s1"
    by (cases "takeWhile is_digit s1") auto
  have "length rest \<le> length (dropWhile is_digit s1)"
    using fr ex lex_fraction_length lex_exponent_length le_trans by blast
  with lt s1 show ?thesis by linarith
qed

text \<open>The tokens of a text; \<open>None\<close> when some part of it is not a token.\<close>

function lex :: "jsstring \<Rightarrow> token list option" where
  "lex [] = Some []"
| "lex (c # cs) =
     (if is_json_whitespace c then lex cs
      else if c = ch CHR ''{'' then cons_token TLBrace (lex cs)
      else if c = ch CHR ''}'' then cons_token TRBrace (lex cs)
      else if c = ch CHR ''['' then cons_token TLBrack (lex cs)
      else if c = ch CHR '']'' then cons_token TRBrack (lex cs)
      else if c = ch CHR '':'' then cons_token TColon (lex cs)
      else if c = ch CHR '','' then cons_token TComma (lex cs)
      else if c = 0x22 then
        (case lex_string cs of
           None \<Rightarrow> None
         | Some (s, rest) \<Rightarrow> cons_token (TStr s) (lex rest))
      else if c = ch CHR ''-'' \<or> is_digit c then
        (case lex_number (c # cs) of
           None \<Rightarrow> None
         | Some (n, rest) \<Rightarrow> cons_token (TNum n) (lex rest))
      else if c = ch CHR ''t'' \<and> take 3 cs = u ''rue'' then cons_token TTrue (lex (drop 3 cs))
      else if c = ch CHR ''f'' \<and> take 4 cs = u ''alse'' then cons_token TFalse (lex (drop 4 cs))
      else if c = ch CHR ''n'' \<and> take 3 cs = u ''ull'' then cons_token TNull (lex (drop 3 cs))
      else None)"
  by pat_completeness auto
termination
proof (relation "measure length")
  show "wf (measure length)" by simp
qed (auto dest: lex_string_length lex_number_length)

subsection \<open>Grammar\<close>

text \<open>
  The parser reads the tokens from left to right with a stack of the containers that
  are open.  \<open>InArr xs\<close> is an array whose elements so far are \<open>xs\<close>; \<open>InObj ms k\<close> is an
  object with the members \<open>ms\<close> whose key \<open>k\<close> awaits its value.
\<close>

datatype frame = InArr "json list" | InObj "(jsstring \<times> json) list" jsstring

datatype pstate =
    Value "frame list"
  | ArrStart "frame list"
  | ObjStart "frame list"
  | Key "(jsstring \<times> json) list" "frame list"
  | Colon "(jsstring \<times> json) list" jsstring "frame list"
  | ArrNext "json list" "frame list"
  | ObjNext "(jsstring \<times> json) list" "frame list"
  | Done json

text \<open>
  Defining a property: a key that is already there keeps its place and takes the new
  value, a new key goes to the end.
\<close>

fun set_prop :: "jsstring \<Rightarrow> 'a \<Rightarrow> (jsstring \<times> 'a) list \<Rightarrow> (jsstring \<times> 'a) list" where
  "set_prop k x [] = [(k, x)]"
| "set_prop k x ((k', y) # ms) = (if k' = k then (k, x) # ms else (k', y) # set_prop k x ms)"

fun deliver :: "json \<Rightarrow> frame list \<Rightarrow> pstate" where
  "deliver j [] = Done j"
| "deliver j (InArr xs # fs) = ArrNext (xs @ [j]) fs"
| "deliver j (InObj ms k # fs) = ObjNext (set_prop k j ms) fs"

fun start_value :: "frame list \<Rightarrow> token \<Rightarrow> pstate option" where
  "start_value fs TNull = Some (deliver JNull fs)"
| "start_value fs TTrue = Some (deliver (JBool True) fs)"
| "start_value fs TFalse = Some (deliver (JBool False) fs)"
| "start_value fs (TNum n) = Some (deliver (JNum n) fs)"
| "start_value fs (TStr s) = Some (deliver (JStr s) fs)"
| "start_value fs TLBrack = Some (ArrStart fs)"
| "start_value fs TLBrace = Some (ObjStart fs)"
| "start_value fs _ = None"

fun step :: "pstate \<Rightarrow> token \<Rightarrow> pstate option" where
  "step (Value fs) t = start_value fs t"
| "step (ArrStart fs) t =
     (if t = TRBrack then Some (deliver (JArr []) fs) else start_value (InArr [] # fs) t)"
| "step (ObjStart fs) t =
     (case t of TRBrace \<Rightarrow> Some (deliver (JObj []) fs)
      | TStr k \<Rightarrow> Some (Colon [] k fs)
      | _ \<Rightarrow> None)"
| "step (Key ms fs) t = (case t of TStr k \<Rightarrow> Some (Colon ms k fs) | _ \<Rightarrow> None)"
| "step (Colon ms k fs) t = (if t = TColon then Some (Value (InObj ms k # fs)) else None)"
| "step (ArrNext xs fs) t =
     (case t of TComma \<Rightarrow> Some (Value (InArr xs # fs))
      | TRBrack \<Rightarrow> Some (deliver (JArr xs) fs)
      | _ \<Rightarrow> None)"
| "step (ObjNext ms fs) t =
     (case t of TComma \<Rightarrow> Some (Key ms fs)
      | TRBrace \<Rightarrow> Some (deliver (JObj ms) fs)
      | _ \<Rightarrow> None)"
| "step (Done j) t = None"

fun run :: "pstate \<Rightarrow> token list \<Rightarrow> pstate option" where
  "run st [] = Some st"
| "run st (t # ts) = (case step st t of None \<Rightarrow> None | Some st' \<Rightarrow> run st' ts)"

definition parse_tokens :: "token list \<Rightarrow> json option" where
  "parse_tokens ts = (case run (Value []) ts of Some (Done j) \<Rightarrow> Some j | _ \<Rightarrow> None)"

text \<open>\<open>JSON.parse\<close>: \<open>None\<close> stands for the \<open>SyntaxError\<close> it throws.\<close>

definition JSON_parse :: "jsstring \<Rightarrow> json option" where
  "JSON_parse text = (case lex text of None \<Rightarrow> None | Some ts \<Rightarrow> parse_tokens ts)"

text \<open>A parsed value as a value of the language: objects have \<open>Object.prototype\<close>.\<close>

fun of_json :: "json \<Rightarrow> jsvalue"
  and of_json_elems :: "json list \<Rightarrow> jsvalue list"
  and of_json_members :: "(jsstring \<times> json) list \<Rightarrow> (jsstring \<times> jsvalue) list" where
  "of_json JNull = Null"
| "of_json (JBool b) = Bool b"
| "of_json (JNum n) = Num n"
| "of_json (JStr s) = Str s"
| "of_json (JArr xs) = Arr (of_json_elems xs)"
| "of_json (JObj ms) = Obj ObjectPrototype (of_json_members ms)"
| "of_json_elems [] = []"
| "of_json_elems (x # xs) = of_json x # of_json_elems xs"
| "of_json_members [] = []"
| "of_json_members ((k, x) # ms) = (k, of_json x) # of_json_members ms"

section \<open>Conversions of parsed values\<close>

text \<open>
  Reading a property of a parsed value that is not \<open>null\<close>; \<open>None\<close> is \<open>undefined\<close>.
  Only an object has own properties under the names the serializer reads, and none of
  those names is found on a prototype.
\<close>

fun get_prop :: "json \<Rightarrow> jsstring \<Rightarrow> json option" where
  "get_prop (JObj ms) k = map_of ms k"
| "get_prop _ k = None"

text \<open>\<open>meta?.k\<close>: \<open>undefined\<close> when \<open>meta\<close> is \<open>undefined\<close> or \<open>null\<close>.\<close>

fun opt_prop :: "json option \<Rightarrow> jsstring \<Rightarrow> json option" where
  "opt_prop None k = None"
| "opt_prop (Some JNull) k = None"
| "opt_prop (Some j) k = get_prop j k"

text \<open>
  \<open>ToString\<close>.  An array is the join of its elements with commas, \<open>null\<close> elements being
  empty.  An object is \<open>[object Object]\<close>, unless it has an own property \<open>toString\<close>: a
  parsed value is never callable, and the conversion then throws a \<open>TypeError\<close>.
\<close>

fun ToString :: "json \<Rightarrow> exn + jsstring"
  and join_elems :: "json list \<Rightarrow> exn + jsstring" where
  "ToString JNull = Inr (u ''null'')"
| "ToString (JBool b) = Inr (if b then u ''true'' else u ''false'')"
| "ToString (JNum n) = Inr (Number_toString n)"
| "ToString (JStr s) = Inr s"
| "ToString (JArr xs) = join_elems xs"
| "ToString (JObj ms) =
     (if map_of ms (u ''toString'') \<noteq> None then Inl TypeError
      else Inr (u ''[object Object]''))"
| "join_elems [] = Inr []"
| "join_elems [x] = (if x = JNull then Inr [] else ToString x)"
| "join_elems (x # y # ys) =
     (case (if x = JNull then Inr [] else ToString x) of
        Inl e \<Rightarrow> Inl e
      | Inr s \<Rightarrow>
          (case join_elems (y # ys) of
             Inl e \<Rightarrow> Inl e
           | Inr r \<Rightarrow> Inr (s @ u '','' @ r)))"

text \<open>\<open>String(x)\<close> and the conversion of an argument to a string.\<close>

fun String_of :: "json option \<Rightarrow> exn + jsstring" where
  "String_of None = Inr (u ''undefined'')"
| "String_of (Some j) = ToString j"

fun is_zero :: "number \<Rightarrow> bool" where
  "is_zero (Dec neg m e) = (m = 0)"
| "is_zero _ = False"

fun ToBoolean :: "json option \<Rightarrow> bool" where
  "ToBoolean None = False"
| "ToBoolean (Some JNull) = False"
| "ToBoolean (Some (JBool b)) = b"
| "ToBoolean (Some (JNum n)) = (\<not> is_zero n \<and> n \<noteq> NaN)"
| "ToBoolean (Some (JStr s)) = (s \<noteq> [])"
| "ToBoolean (Some _) = True"

text \<open>
  The parts of the host that are implementation-defined or are not modelled: how a date
  string that is not in the ISO format is read, which patterns and flags make a regular
  expression (with the \<open>source\<close> and \<open>flags\<close> of the result), how a string is read as a
  number, and the clock.
\<close>

record platform =
  date_parse_other :: "jsstring \<Rightarrow> int option"
  regexp_create :: "jsstring \<Rightarrow> jsstring \<Rightarrow> (jsstring \<times> jsstring) option"
  string_to_number :: "jsstring \<Rightarrow> number"
  date_now :: int

fun ToNumber :: "platform \<Rightarrow> json option \<Rightarrow> exn + number" where
  "ToNumber P None = Inr NaN"
| "ToNumber P (Some JNull) = Inr (Dec False 0 0)"
| "ToNumber P (Some (JBool b)) = Inr (if b then one else Dec False 0 0)"
| "ToNumber P (Some (JNum n)) = Inr n"
| "ToNumber P (Some (JStr s)) = Inr (string_to_number P s)"
| "ToNumber P (Some j) =
     (case ToString j of Inl e \<Rightarrow> Inl e | Inr s \<Rightarrow> Inr (string_to_number P s))"

text \<open>The integer part of a finite number, towards zero.\<close>

fun truncate :: "number \<Rightarrow> int option" where
  "truncate (Dec neg m e) =
     Some ((if neg then - 1 else 1)
           * (if 0 \<le> e then int m * 10 ^ nat e else int (m div 10 ^ nat (- e))))"
| "truncate _ = None"

definition TimeClip :: "int \<Rightarrow> int option" where
  "TimeClip t = (if valid_time t then Some t else None)"

section \<open>Constructors of the host used in decoding\<close>

subsection \<open>Date\<close>

definition fixed_digits :: "jsstring \<Rightarrow> nat option" where
  "fixed_digits s = (if s \<noteq> [] \<and> list_all is_digit s then Some (nat_of_digits s) else None)"

text \<open>A year of four digits, or a sign and six digits; \<open>-000000\<close> is not a year.\<close>

definition iso_year :: "jsstring \<Rightarrow> int option" where
  "iso_year ys =
     (if length ys = 4 then map_option int (fixed_digits ys)
      else if length ys = 7 \<and> hd ys = ch CHR ''+'' then map_option int (fixed_digits (tl ys))
      else if length ys = 7 \<and> hd ys = ch CHR ''-'' then
        (case fixed_digits (tl ys) of
           None \<Rightarrow> None
         | Some n \<Rightarrow> if n = 0 then None else Some (- int n))
      else None)"

text \<open>
  A date-time string in the full UTC form \<open>YYYY-MM-DDTHH:mm:ss.sssZ\<close> (or with an expanded
  year) whose fields are in range, and the time value it denotes.  \<open>None\<close>: the string is
  not of this form.
\<close>

definition parse_iso :: "jsstring \<Rightarrow> int option option" where
  "parse_iso s =
     (if length s < 20 then None
      else
        (let ys = take (length s - 20) s; r = drop (length s - 20) s in
         if r ! 0 = ch CHR ''-'' \<and> r ! 3 = ch CHR ''-'' \<and> r ! 6 = ch CHR ''T''
            \<and> r ! 9 = ch CHR '':'' \<and> r ! 12 = ch CHR '':'' \<and> r ! 15 = ch CHR ''.''
            \<and> r ! 19 = ch CHR ''Z'' then
           (case (iso_year ys, fixed_digits (take 2 (drop 1 r)), fixed_digits (take 2 (drop 4 r)),
                  fixed_digits (take 2 (drop 7 r)), fixed_digits (take 2 (drop 10 r)),
                  fixed_digits (take 2 (drop 13 r)), fixed_digits (take 3 (drop 16 r))) of
              (Some y, Some mo, Some d, Some h, Some mi, Some sec, Some ms) \<Rightarrow>
                if 1 \<le> mo \<and> mo \<le> 12 \<and> 1 \<le> d
                   \<and> int d \<le> month_start mo (InLeapYear y) - month_start (mo - 1) (InLeapYear y)
                   \<and> h \<le> 24 \<and> (h < 24 \<or> (mi = 0 \<and> sec = 0 \<and> ms = 0))
                   \<and> mi \<le> 59 \<and> sec \<le> 59 then
                  Some (TimeClip
                    ((DayFromYear y + month_start (mo - 1) (InLeapYear y) + int d - 1) * 86400000
                      + int h * 3600000 + int mi * 60000 + int sec * 1000 + int ms))
                else None
            | _ \<Rightarrow> None)
         else None))"

definition Date_parse :: "platform \<Rightarrow> jsstring \<Rightarrow> int option" where
  "Date_parse P s = (case parse_iso s of Some tv \<Rightarrow> tv | None \<Rightarrow> date_parse_other P s)"

text \<open>The time value of a number: none unless it is finite and within the range.\<close>

fun TimeClip_number :: "number \<Rightarrow> int option" where
  "TimeClip_number (Dec neg m e) =
     (if 0 \<le> e then TimeClip ((if neg then - 1 else 1) * (int m * 10 ^ nat e))
      else if m \<le> 8640000000000000 * 10 ^ nat (- e)
        then Some ((if neg then - 1 else 1) * int (m div 10 ^ nat (- e)))
      else None)"
| "TimeClip_number _ = None"

text \<open>\<open>new Date(x)\<close> for a parsed value or \<open>undefined\<close>.\<close>

fun Date_new :: "platform \<Rightarrow> json option \<Rightarrow> exn + jsvalue" where
  "Date_new P None = Inr (DateV None)"
| "Date_new P (Some JNull) = Inr (DateV (Some 0))"
| "Date_new P (Some (JBool b)) = Inr (DateV (Some (if b then 1 else 0)))"
| "Date_new P (Some (JNum n)) = Inr (DateV (TimeClip_number n))"
| "Date_new P (Some (JStr s)) = Inr (DateV (Date_parse P s))"
| "Date_new P (Some j) =
     (case ToString j of Inl e \<Rightarrow> Inl e | Inr s \<Rightarrow> Inr (DateV (Date_parse P s)))"

subsection \<open>RegExp\<close>

text \<open>
  \<open>new RegExp(pattern, flags)\<close>: an argument that is \<open>undefined\<close> is the empty string;
  a pattern or flags the host refuses is a \<open>SyntaxError\<close>.
\<close>

definition RegExp_new :: "platform \<Rightarrow> json option \<Rightarrow> json option \<Rightarrow> exn + jsvalue" where
  "RegExp_new P pattern flags =
     (case (case pattern of None \<Rightarrow> Inr [] | Some j \<Rightarrow> ToString j) of
        Inl e \<Rightarrow> Inl e
      | Inr p \<Rightarrow>
          (case (case flags of None \<Rightarrow> Inr [] | Some j \<Rightarrow> ToString j) of
             Inl e \<Rightarrow> Inl e
           | Inr f \<Rightarrow>
               (case regexp_create P p f of
                  None \<Rightarrow> Inl SyntaxError
                | Some (source, flags') \<Rightarrow> Inr (RegExpV source flags'))))"

subsection \<open>Blob and File\<close>

text \<open>
  The type of a new Blob: empty when the given one has a character outside
  \<open>U+0020..U+007E\<close>, and in lower case otherwise.
\<close>

definition lower :: "jschar \<Rightarrow> jschar" where
  "lower c = (if 0x41 \<le> c \<and> c \<le> 0x5A then c + 0x20 else c)"

definition normalise_type :: "jsstring \<Rightarrow> jsstring" where
  "normalise_type t = (if list_all (\<lambda>c. 0x20 \<le> c \<and> c \<le> 0x7E) t then map lower t else [])"

text \<open>A file name is a string of scalar values: a lone surrogate becomes \<open>U+FFFD\<close>.\<close>

fun to_usv :: "jsstring \<Rightarrow> jsstring" where
  "to_usv [] = []"
| "to_usv [c] = (if is_high_surrogate c \<or> is_low_surrogate c then [0xFFFD] else [c])"
| "to_usv (c # d # cs) =
     (if is_high_surrogate c \<and> is_low_surrogate d then c # d # to_usv cs
      else if is_high_surrogate c \<or> is_low_surrogate c then 0xFFFD # to_usv (d # cs)
      else c # to_usv (d # cs))"

text \<open>The conversion of a number to a signed 64-bit integer.\<close>

definition to_long_long :: "number \<Rightarrow> int" where
  "to_long_long n =
     (case truncate n of
        None \<Rightarrow> 0
      | Some i \<Rightarrow> (i + 2 ^ 63) mod 2 ^ 64 - 2 ^ 63)"

text \<open>
  \<open>new File([blob], name, {type, lastModified})\<close>: the name and the type are converted
  to strings (an \<open>undefined\<close> type is the empty string), the time to a 64-bit integer
  (\<open>undefined\<close> is the current time).
\<close>

definition File_new ::
  "platform \<Rightarrow> bytes \<Rightarrow> json option \<Rightarrow> json option \<Rightarrow> json option \<Rightarrow> exn + jsvalue" where
  "File_new P content name type lastModified =
     (case String_of name of
        Inl e \<Rightarrow> Inl e
      | Inr n \<Rightarrow>
          (case (case type of None \<Rightarrow> Inr [] | Some j \<Rightarrow> ToString j) of
             Inl e \<Rightarrow> Inl e
           | Inr t \<Rightarrow>
               (case (case lastModified of
                        None \<Rightarrow> Inr (date_now P)
                      | Some j \<Rightarrow>
                          (case ToNumber P (Some j) of
                             Inl e \<Rightarrow> Inl e
                           | Inr x \<Rightarrow> Inr (to_long_long x))) of
                  Inl e \<Rightarrow> Inl e
                | Inr lm \<Rightarrow> Inr (FileV content (to_usv n) (normalise_type t) lm))))"

section \<open>Serializer: decoding (core/serializer.ts)\<close>

text \<open>
  \<open>base64ToBlob\<close>: the content and the type of the Blob it builds.  \<open>atob\<close> converts its
  argument to a string; the type is \<open>type || ''\<close>, converted to a string.
\<close>

definition base64ToBlob :: "json option \<Rightarrow> json option \<Rightarrow> exn + (bytes \<times> jsstring)" where
  "base64ToBlob base64 type =
     (case String_of base64 of
        Inl e \<Rightarrow> Inl e
      | Inr b \<Rightarrow>
          (case atob b of
             Inl e \<Rightarrow> Inl e
           | Inr binaryString \<Rightarrow>
               (case (if ToBoolean type then String_of type else Inr []) of
                  Inl e \<Rightarrow> Inl e
                | Inr t \<Rightarrow> Inr (map ucast binaryString, normalise_type t))))"

definition base64ToFile ::
  "platform \<Rightarrow> json option \<Rightarrow> json option \<Rightarrow> json option \<Rightarrow> json option \<Rightarrow> exn + jsvalue" where
  "base64ToFile P base64 name type lastModified =
     (case base64ToBlob base64 type of
        Inl e \<Rightarrow> Inl e
      | Inr (content, blobType) \<Rightarrow> File_new P content name type lastModified)"

definition corruption_error :: "jsstring \<Rightarrow> exn" where
  "corruption_error msg = StorageErr (new_StorageError CORRUPTION msg None None)"

text \<open>
  \<open>extractValue\<close>.  The parsed text is cast to \<open>SerializedValue\<close> without a check, so the
  envelope is any parsed value; reading \<open>__v\<close> of \<open>null\<close> throws a \<open>TypeError\<close>.  The
  \<open>switch\<close> compares the tag with \<open>===\<close>.
\<close>

definition extractValue :: "platform \<Rightarrow> json \<Rightarrow> exn + jsvalue" where
  "extractValue P envelope =
     (if envelope = JNull then Inl TypeError
      else if get_prop envelope (u ''__v'') \<noteq> Some (JNum one) then
        (case String_of (get_prop envelope (u ''__v'')) of
           Inl e \<Rightarrow> Inl e
         | Inr s \<Rightarrow> Inl (corruption_error (u ''Unsupported envelope format version: '' @ s)))
      else
        (let type = get_prop envelope (u ''__t'');
             data = get_prop envelope (u ''data'');
             meta = get_prop envelope (u ''meta'')
         in
           if type = Some (JStr (u ''null'')) then Inr Null
           else if type = Some (JStr (u ''undefined'')) then Inr Undefined
           else if type = Some (JStr (u ''string'')) \<or> type = Some (JStr (u ''number''))
                   \<or> type = Some (JStr (u ''boolean'')) then
             Inr (case data of None \<Rightarrow> Undefined | Some j \<Rightarrow> of_json j)
           else if type = Some (JStr (u ''object'')) \<or> type = Some (JStr (u ''array'')) then
             Inr (case data of None \<Rightarrow> Undefined | Some j \<Rightarrow> of_json j)
           else if type = Some (JStr (u ''date'')) then Date_new P data
           else if type = Some (JStr (u ''regexp'')) then
             RegExp_new P data (opt_prop meta (u ''flags''))
           else if type = Some (JStr (u ''blob'')) then
             (case base64ToBlob data (opt_prop meta (u ''type'')) of
                Inl e \<Rightarrow> Inl e
              | Inr (content, t) \<Rightarrow> Inr (BlobV content t))
           else if type = Some (JStr (u ''file'')) then
             base64ToFile P data (opt_prop meta (u ''name'')) (opt_prop meta (u ''type''))
               (opt_prop meta (u ''lastModified''))
           else if type = Some (JStr (u ''arraybuffer'')) then
             (case String_of data of
                Inl e \<Rightarrow> Inl e
              | Inr b \<Rightarrow>
                  (case base64ToArrayBuffer b of
                     Inl e \<Rightarrow> Inl e
                   | Inr buffer \<Rightarrow> Inr (ArrayBufferV buffer)))
           else
             (case String_of type of
                Inl e \<Rightarrow> Inl e
              | Inr s \<Rightarrow> Inl (corruption_error (u ''Unknown type in envelope: '' @ s)))))"

text \<open>
  \<open>deserialize\<close>: a \<open>StorageError\<close> is thrown again; every other exception, the parser's
  \<open>SyntaxError\<close> among them, is answered with \<open>null\<close> (after a warning on the console).
\<close>

definition deserialize :: "platform \<Rightarrow> jsstring \<Rightarrow> exn + jsvalue" where
  "deserialize P json =
     (case JSON_parse json of
        None \<Rightarrow> Inr Null
      | Some envelope \<Rightarrow>
          (case extractValue P envelope of
             Inl (StorageErr error) \<Rightarrow> Inl (StorageErr error)
           | Inl _ \<Rightarrow> Inr Null
           | Inr v \<Rightarrow> Inr v))"

section \<open>Properties of key validation and of the error mapping\<close>

lemma u_simps: "u [] = []" "u (c # cs) = of_char c # u cs"
  by (simp_all add: u_def)

text \<open>
  C7.  \<open>validateKey\<close> returns normally exactly for a string of 1 to 1000 code units.
  Every failure carries the code \<open>INVALID_VALUE\<close>: a key that is not a string is refused
  with a message that ends in its \<open>typeof\<close>, the empty string with the "cannot be empty"
  message, and a string longer than 1000 with the "too long" message that prints the
  length.
\<close>

theorem validateKey_spec:
  "(validateKey key = Inr () \<longleftrightarrow> (\<exists>k. key = Str k \<and> 1 \<le> length k \<and> length k \<le> 1000))
   \<and> ((\<forall>k. key \<noteq> Str k) \<longrightarrow>
        (\<exists>e. validateKey key = Inl e \<and> code e = INVALID_VALUE
           \<and> message e = u ''Invalid key: Key must be a string, got '' @ typeof key))
   \<and> (key = Str [] \<longrightarrow>
        (\<exists>e. validateKey key = Inl e \<and> code e = INVALID_VALUE
           \<and> message e = u ''Invalid key: Key cannot be empty''))
   \<and> (\<forall>k. key = Str k \<and> 1000 < length k \<longrightarrow>
        (\<exists>e. validateKey key = Inl e \<and> code e = INVALID_VALUE
           \<and> message e = u ''Invalid key: Key too long ('' @ show_nat (length k)
                 @ u '' characters). Maximum is 1000 characters''))"
proof (cases key)
  case (Str k)
  then show ?thesis
    by (auto simp: validateKey_def invalidKey_def new_StorageError_def u_def Suc_le_eq)
qed (simp_all add: validateKey_def invalidKey_def new_StorageError_def u_def)

theorem validateKey_spec_witness:
  "validateKey (Str (replicate 1000 (of_char CHR ''x''))) = Inr ()
   \<and> (\<exists>e. validateKey (Num (Dec False 123 0)) = Inl e \<and> code e = INVALID_VALUE
          \<and> message e = u ''Invalid key: Key must be a string, got number'')
   \<and> (\<exists>e. validateKey (Str []) = Inl e \<and> code e = INVALID_VALUE
          \<and> message e = u ''Invalid key: Key cannot be empty'')
   \<and> (\<exists>e. validateKey (Str (replicate 1001 (of_char CHR ''x''))) = Inl e
          \<and> code e = INVALID_VALUE
          \<and> message e = u ''Invalid key: Key too long (1001 characters). Maximum is 1000 characters'')"
proof -
  have d: "show_nat 1001 = u ''1001''"
    by (simp add: show_nat_def digit_char_def u_def)
  show ?thesis
    using validateKey_spec [of "Str (replicate 1000 (of_char CHR ''x''))"]
      validateKey_spec [of "Num (Dec False 123 0)"]
      validateKey_spec [of "Str []"]
      validateKey_spec [of "Str (replicate 1001 (of_char CHR ''x''))"]
    by (simp add: d u_def)
qed

text \<open>
  C8.  \<open>fromNativeError\<close> is a total function of the native failure: it yields
  \<open>QUOTA_EXCEEDED\<close>, \<open>TIMEOUT\<close> and \<open>VERSION_MISMATCH\<close> for the three names it knows, and for
  every other name \<open>OPERATION_FAILED\<close> with the failure's message appended to
  "Storage operation failed: ".  In every case the result keeps the failure as
  \<open>originalError\<close> and the context it was given.
\<close>

theorem fromNativeError_spec:
  "(error_name err = u ''QuotaExceededError'' \<longrightarrow> code (fromNativeError err cx) = QUOTA_EXCEEDED)
   \<and> (error_name err = u ''TimeoutError'' \<longrightarrow> code (fromNativeError err cx) = TIMEOUT)
   \<and> (error_name err = u ''VersionError'' \<longrightarrow> code (fromNativeError err cx) = VERSION_MISMATCH)
   \<and> (error_name err \<noteq> u ''QuotaExceededError'' \<and> error_name err \<noteq> u ''TimeoutError''
        \<and> error_name err \<noteq> u ''VersionError'' \<longrightarrow>
          code (fromNativeError err cx) = OPERATION_FAILED
          \<and> message (fromNativeError err cx) = u ''Storage operation failed: '' @ error_message err)
   \<and> originalError (fromNativeError err cx) = Some err
   \<and> ctxt (fromNativeError err cx) = cx"
  by (simp add: fromNativeError_def new_StorageError_def Let_def u_def)

theorem fromNativeError_spec_witness:
  "code (fromNativeError \<lparr>error_name = u ''QuotaExceededError'', error_message = u ''full''\<rparr> None)
     = QUOTA_EXCEEDED
   \<and> code (fromNativeError \<lparr>error_name = u ''TimeoutError'', error_message = u ''late''\<rparr> None)
     = TIMEOUT
   \<and> code (fromNativeError \<lparr>error_name = u ''VersionError'', error_message = u ''old''\<rparr> None)
     = VERSION_MISMATCH
   \<and> code (fromNativeError \<lparr>error_name = u ''NotFoundError'', error_message = u ''gone''\<rparr> None)
     = OPERATION_FAILED
   \<and> message (fromNativeError \<lparr>error_name = u ''SomethingElse'', error_message = u ''boom''\<rparr> None)
     = u ''Storage operation failed: boom''
   \<and> originalError (fromNativeError \<lparr>error_name = u ''SomethingElse'', error_message = u ''boom''\<rparr> None)
     = Some \<lparr>error_name = u ''SomethingElse'', error_message = u ''boom''\<rparr>"
  using fromNativeError_spec [of "\<lparr>error_name = u ''QuotaExceededError'', error_message = u ''full''\<rparr>" None]
    fromNativeError_spec [of "\<lparr>error_name = u ''TimeoutError'', error_message = u ''late''\<rparr>" None]
    fromNativeError_spec [of "\<lparr>error_name = u ''VersionError'', error_message = u ''old''\<rparr>" None]
    fromNativeError_spec [of "\<lparr>error_name = u ''NotFoundError'', error_message = u ''gone''\<rparr>" None]
    fromNativeError_spec [of "\<lparr>error_name = u ''SomethingElse'', error_message = u ''boom''\<rparr>" None]
  by (simp add: u_def)

end
